theory Spec2Isabelle
  imports Complex_Main "HOL-Library.AList" "HOL-Library.Multiset"
    "HOL-Library.Product_Lexorder"
begin

section \<open>The budget allocation engine of the Fractional Stock Investor\<close>

text \<open>
  The engine lives in three event handlers of \<^verbatim>\<open>App.tsx\<close>:
  \<^verbatim>\<open>handleCalculateInvestment\<close> (greedy allocation),
  \<^verbatim>\<open>handleRemoveStock\<close> and \<^verbatim>\<open>handleAdjustInvestment\<close>.
  They read and write five pieces of React state.

  Numbers. The engine is modelled at two levels. The first (this section) holds every
  number of the state as an exact \<^typ>\<open>real\<close>: it describes the runs in which all
  numbers stay finite, and rounding of IEEE doubles is not part of it. The stock form
  (\<^verbatim>\<open>handleAddStock\<close>) only admits a price \<open>> 0\<close> and a return \<open>\<ge> 0\<close>, and
  the budget input replaces NaN by 0; theorems that depend on a division by the price
  carry the positivity of the price as a hypothesis, since \<open>x / 0\<close> is \<open>0\<close> in HOL
  and not in JavaScript. At this level the one number that may be infinite or NaN is the
  result of \<^verbatim>\<open>parseFloat\<close> in the adjustment handler; it has its own type below.

  The second level (section "The engine over IEEE values") holds every number as such a
  value, with overflow to the infinities, and is the one to consult wherever a number
  can leave the finite range: a quotient by a tiny price, an infinite budget or amount.
\<close>

subsection \<open>Data model (\<^verbatim>\<open>types.ts\<close>)\<close>

record stock =
  id_stock :: string
  name :: string
  price :: real
  expectedReturn :: real

record investmentResult =
  stockId :: string
  stockName :: string
  fraction :: real
  investedAmount :: real
  actualReturn :: real

text \<open>The React state of \<^verbatim>\<open>App\<close> that the engine uses.\<close>

record app_state =
  budget :: real
  stocks :: "stock list"
  investmentResults :: "investmentResult list"
  totalInvestedAmount :: real
  totalActualReturn :: real

subsection \<open>The value of \<^verbatim>\<open>parseFloat\<close>\<close>

text \<open>
  \<^verbatim>\<open>parseFloat\<close> is a builtin; its result is an input of the model. It is a finite
  number, one of the two infinities, or NaN. The operators below are the ones the
  adjustment handler applies to it, with the IEEE rules for the special values.
\<close>

datatype jsnum = NaN | PosInf | NegInf | Fin real

fun isNaN :: "jsnum \<Rightarrow> bool" where
  "isNaN NaN = True"
| "isNaN _ = False"

fun js_neg :: "jsnum \<Rightarrow> jsnum" where
  "js_neg NaN = NaN"
| "js_neg PosInf = NegInf"
| "js_neg NegInf = PosInf"
| "js_neg (Fin x) = Fin (- x)"

fun js_add :: "jsnum \<Rightarrow> jsnum \<Rightarrow> jsnum" where
  "js_add NaN _ = NaN"
| "js_add _ NaN = NaN"
| "js_add PosInf NegInf = NaN"
| "js_add NegInf PosInf = NaN"
| "js_add PosInf _ = PosInf"
| "js_add _ PosInf = PosInf"
| "js_add NegInf _ = NegInf"
| "js_add _ NegInf = NegInf"
| "js_add (Fin x) (Fin y) = Fin (x + y)"

definition js_sub :: "jsnum \<Rightarrow> jsnum \<Rightarrow> jsnum" where
  "js_sub a b = js_add a (js_neg b)"

fun js_lt :: "jsnum \<Rightarrow> jsnum \<Rightarrow> bool" where
  "js_lt NaN _ = False"
| "js_lt _ NaN = False"
| "js_lt PosInf _ = False"
| "js_lt _ PosInf = True"
| "js_lt _ NegInf = False"
| "js_lt NegInf _ = True"
| "js_lt (Fin x) (Fin y) = (x < y)"

definition js_gt :: "jsnum \<Rightarrow> jsnum \<Rightarrow> bool" where
  "js_gt a b = js_lt b a"

subsection \<open>Alerts\<close>

text \<open>
  What a handler reports through \<^verbatim>\<open>alert\<close>: \<open>InvalidInput\<close> stands for the two
  messages asking for a positive budget and a stock, or for a valid non-negative
  amount; \<open>NotFound\<close> for "Stock details not found"; \<open>BudgetExceeded\<close> for
  "Cannot invest ...", which quotes the amount, the budget and the current total.
\<close>

datatype alert = InvalidInput | NotFound | BudgetExceeded jsnum real real

subsection \<open>\<^verbatim>\<open>Array.prototype.sort\<close>\<close>

text \<open>
  \<^verbatim>\<open>sort\<close> with a comparator is a builtin, specified to be stable: \<open>a\<close> comes before
  \<open>b\<close> when \<open>cmp a b < 0\<close>, and elements that compare equal keep their order. For a
  consistent comparator the result of a stable sort is unique, so it is modelled by
  insertion sort: \<open>foldr\<close> inserts each element into the sorted rest of the list, in
  front of the first element it does not have to follow.
\<close>

fun insort_cmp :: "('a \<Rightarrow> 'a \<Rightarrow> real) \<Rightarrow> 'a \<Rightarrow> 'a list \<Rightarrow> 'a list" where
  "insort_cmp cmp x [] = [x]"
| "insort_cmp cmp x (y # ys) =
     (if cmp x y \<le> 0 then x # y # ys else y # insort_cmp cmp x ys)"

definition js_sort :: "('a \<Rightarrow> 'a \<Rightarrow> real) \<Rightarrow> 'a list \<Rightarrow> 'a list" where
  "js_sort cmp xs = foldr (insort_cmp cmp) xs []"

subsection \<open>\<^verbatim>\<open>handleCalculateInvestment\<close>\<close>

text \<open>The zero-valued result both branches of the handler create for a stock.\<close>

definition zeroResult :: "stock \<Rightarrow> investmentResult" where
  "zeroResult stock =
     \<lparr>stockId = id_stock stock, stockName = name stock,
      fraction = 0, investedAmount = 0, actualReturn = 0\<rparr>"

text \<open>
  \<^verbatim>\<open>resultsMap\<close> is a JavaScript \<^verbatim>\<open>Map\<close>: it iterates in insertion order, and
  \<^verbatim>\<open>set\<close> on a key that is present replaces the value where it stands. That is an
  association list with \<^const>\<open>AList.update\<close>. The \<^verbatim>\<open>forEach\<close> fills it.
\<close>

definition initResultsMap :: "stock list \<Rightarrow> (string \<times> investmentResult) list" where
  "initResultsMap sts =
     foldl (\<lambda>m stock. AList.update (id_stock stock) (zeroResult stock) m) [] sts"

text \<open>The comparator and the sorted copy of the stocks.\<close>

definition compareStocks :: "stock \<Rightarrow> stock \<Rightarrow> real" where
  "compareStocks a b = (expectedReturn b / price b) - (expectedReturn a / price a)"

definition sortedStocks :: "stock list \<Rightarrow> stock list" where
  "sortedStocks sts = js_sort compareStocks sts"

text \<open>The variables of the \<^verbatim>\<open>for\<close> loop.\<close>

record loop_state =
  currentBudget :: real
  currentTotalReturn :: real
  currentTotalInvestedAmount :: real
  resultsMap :: "(string \<times> investmentResult) list"

text \<open>
  One pass through the loop body for \<open>stock\<close>, after the \<^verbatim>\<open>break\<close> test:
  whole shares when the budget covers one, a fraction otherwise. The result object found
  in the map is mutated in place (\<^const>\<open>AList.map_entry\<close> does nothing for a missing
  key, as the \<^verbatim>\<open>if (existingResult)\<close>).
\<close>

definition loopBody :: "stock \<Rightarrow> loop_state \<Rightarrow> loop_state" where
  "loopBody stock st =
     (let (frac, invested, ret) =
        (if currentBudget st \<ge> price stock then
           (let numShares = real_of_int \<lfloor>currentBudget st / price stock\<rfloor>
            in (numShares, numShares * price stock,
                (numShares * price stock) * (expectedReturn stock / 100)))
         else
           (currentBudget st / price stock, currentBudget st,
            currentBudget st * (expectedReturn stock / 100)))
      in \<lparr>currentBudget = currentBudget st - invested,
          currentTotalReturn = currentTotalReturn st + ret,
          currentTotalInvestedAmount = currentTotalInvestedAmount st + invested,
          resultsMap =
            AList.map_entry (id_stock stock)
              (\<lambda>r. r\<lparr>fraction := frac, investedAmount := invested, actualReturn := ret\<rparr>)
              (resultsMap st)\<rparr>)"

fun allocLoop :: "stock list \<Rightarrow> loop_state \<Rightarrow> loop_state" where
  "allocLoop [] st = st"
| "allocLoop (stock # rest) st =
     (if currentBudget st \<le> 0 then st else allocLoop rest (loopBody stock st))"

text \<open>
  The handler is a closure: \<open>b\<close> and \<open>sts\<close> are the \<^verbatim>\<open>budget\<close> and \<^verbatim>\<open>stocks\<close> of
  the render that created it (the dependencies of its \<^verbatim>\<open>useCallback\<close>), and \<open>st\<close> is
  the state its setters write to. It returns the alert it raised, if any, and the new
  state.
\<close>

definition handleCalculateInvestment ::
    "real \<Rightarrow> stock list \<Rightarrow> app_state \<Rightarrow> alert option \<times> app_state" where
  "handleCalculateInvestment b sts st =
     (if b \<le> 0 \<or> length sts = 0 then
        (Some InvalidInput,
         st\<lparr>investmentResults := map zeroResult sts,
            totalInvestedAmount := 0, totalActualReturn := 0\<rparr>)
      else
        (let fin = allocLoop (sortedStocks sts)
               \<lparr>currentBudget = b, currentTotalReturn = 0,
                currentTotalInvestedAmount = 0, resultsMap = initResultsMap sts\<rparr>
         in (None,
             st\<lparr>investmentResults := map snd (resultsMap fin),
                totalInvestedAmount := currentTotalInvestedAmount fin,
                totalActualReturn := currentTotalReturn fin\<rparr>)))"


definition allocate :: "real \<Rightarrow> stock list \<Rightarrow> investmentResult list \<times> real \<times> real" where
  "allocate b sts =
     (let st' = snd (handleCalculateInvestment b sts
                 \<lparr>budget = b, stocks = sts, investmentResults = [],
                  totalInvestedAmount = 0, totalActualReturn = 0\<rparr>)
      in (investmentResults st', totalInvestedAmount st', totalActualReturn st'))"

subsection \<open>\<^verbatim>\<open>handleRemoveStock\<close>\<close>

text \<open>
  The handler filters the stock out of \<^verbatim>\<open>stocks\<close> and \<^verbatim>\<open>investmentResults\<close> with
  two functional updates, and schedules \<^verbatim>\<open>handleCalculateInvestment()\<close> with
  \<^verbatim>\<open>setTimeout\<close>. The function it schedules is the one in its own closure (its
  \<^verbatim>\<open>useCallback\<close> dependency), created by the render in which the click happened: that
  function reads the \<^verbatim>\<open>budget\<close> and \<^verbatim>\<open>stocks\<close> of that render, so the stock list
  before the removal, and its setters write to the state after the two updates.
\<close>

definition handleRemoveStock :: "string \<Rightarrow> app_state \<Rightarrow> alert option \<times> app_state" where
  "handleRemoveStock i st =
     (let st1 = st\<lparr>stocks := filter (\<lambda>stock. id_stock stock \<noteq> i) (stocks st),
                   investmentResults :=
                     filter (\<lambda>result. stockId result \<noteq> i) (investmentResults st)\<rparr>
      in handleCalculateInvestment (budget st) (stocks st) st1)"

subsection \<open>\<^verbatim>\<open>handleAdjustInvestment\<close>\<close>

text \<open>
  \<open>newAmount\<close> is the value of \<^verbatim>\<open>parseFloat(newAmountString)\<close>. The checks follow the
  source in order. \<^verbatim>\<open>currentInvestmentResult?.investedAmount || 0\<close> is the invested
  amount of the first result of that stock, and 0 when there is none
  (\<open>currentInvestmentAmount\<close>). The update maps
  over the results and recomputes both totals with \<^verbatim>\<open>reduce\<close>. It needs the amount as
  a number of the state; the last case of the inner \<open>case\<close> is never reached
  (lemma \<open>adjust_accepts_only_finite\<close>): NaN and \<open>-Infinity\<close> fail the first check,
  and \<open>Infinity\<close> fails the budget check, the budget and the total being finite at
  this level. With an infinite budget the source accepts \<open>Infinity\<close>; that run is in
  \<open>handleAdjustInvestment_js\<close> below.
\<close>

definition currentInvestmentAmount :: "investmentResult list \<Rightarrow> string \<Rightarrow> real" where
  "currentInvestmentAmount results sid =
     (case find (\<lambda>r. stockId r = sid) results of
        None \<Rightarrow> 0
      | Some currentInvestmentResult \<Rightarrow> investedAmount currentInvestmentResult)"

definition adjustResult :: "stock \<Rightarrow> string \<Rightarrow> real \<Rightarrow> investmentResult \<Rightarrow> investmentResult" where
  "adjustResult stockToAdjust sid newAmount result =
     (if stockId result = sid then
        result\<lparr>fraction := newAmount / price stockToAdjust,
               investedAmount := newAmount,
               actualReturn := newAmount * (expectedReturn stockToAdjust / 100)\<rparr>
      else result)"

definition handleAdjustInvestment ::
    "string \<Rightarrow> jsnum \<Rightarrow> app_state \<Rightarrow> alert option \<times> app_state" where
  "handleAdjustInvestment sid newAmount st =
     (if isNaN newAmount \<or> js_lt newAmount (Fin 0) then (Some InvalidInput, st)
      else
        (case find (\<lambda>s. id_stock s = sid) (stocks st) of
           None \<Rightarrow> (Some NotFound, st)
         | Some stockToAdjust \<Rightarrow>
             (let amountDifference =
                    js_sub newAmount (Fin (currentInvestmentAmount (investmentResults st) sid));
                  newTotalInvested = js_add (Fin (totalInvestedAmount st)) amountDifference
              in if js_gt newTotalInvested (Fin (budget st)) then
                   (Some (BudgetExceeded newAmount (budget st) (totalInvestedAmount st)), st)
                 else
                   (case newAmount of
                      Fin a \<Rightarrow>
                        (let updatedResults =
                               map (adjustResult stockToAdjust sid a) (investmentResults st)
                         in (None,
                             st\<lparr>investmentResults := updatedResults,
                                totalInvestedAmount :=
                                  foldl (\<lambda>sum res. sum + investedAmount res) 0 updatedResults,
                                totalActualReturn :=
                                  foldl (\<lambda>sum res. sum + actualReturn res) 0 updatedResults\<rparr>))
                    | _ \<Rightarrow> (None, st)))))"

section \<open>The engine over IEEE values\<close>

text \<open>
  The same handlers with every number a \<^typ>\<open>jsnum\<close>: a finite value, an infinity
  or NaN. A finite result is kept exact unless it reaches the overflow threshold of
  the binary64 format, \<open>2\<^sup>1\<^sup>0\<^sup>2\<^sup>4 - 2\<^sup>9\<^sup>7\<^sup>0\<close>, from where round-to-nearest gives an
  infinity. Rounding below the threshold, underflow and the sign of zero are not
  modelled.
\<close>

subsection \<open>Arithmetic\<close>

definition overflowBound :: real where
  "overflowBound = 2 ^ 1024 - 2 ^ 970"

definition ovf :: "real \<Rightarrow> jsnum" where
  "ovf x = (if overflowBound \<le> x then PosInf
            else if x \<le> - overflowBound then NegInf else Fin x)"


text \<open>
  The operators of the source, with the IEEE rules for the special values. A division
  of a non-zero number by zero is an infinity and \<open>0 / 0\<close> is NaN;
  \<^verbatim>\<open>Math.floor\<close> leaves the special values as they are.
\<close>

fun ieee_add :: "jsnum \<Rightarrow> jsnum \<Rightarrow> jsnum" where
  "ieee_add NaN _ = NaN"
| "ieee_add _ NaN = NaN"
| "ieee_add PosInf NegInf = NaN"
| "ieee_add NegInf PosInf = NaN"
| "ieee_add PosInf _ = PosInf"
| "ieee_add _ PosInf = PosInf"
| "ieee_add NegInf _ = NegInf"
| "ieee_add _ NegInf = NegInf"
| "ieee_add (Fin x) (Fin y) = ovf (x + y)"

definition ieee_sub :: "jsnum \<Rightarrow> jsnum \<Rightarrow> jsnum" where
  "ieee_sub a b = ieee_add a (js_neg b)"

fun ieee_mul :: "jsnum \<Rightarrow> jsnum \<Rightarrow> jsnum" where
  "ieee_mul NaN _ = NaN"
| "ieee_mul _ NaN = NaN"
| "ieee_mul (Fin x) (Fin y) = ovf (x * y)"
| "ieee_mul (Fin x) PosInf = (if x = 0 then NaN else if 0 < x then PosInf else NegInf)"
| "ieee_mul (Fin x) NegInf = (if x = 0 then NaN else if 0 < x then NegInf else PosInf)"
| "ieee_mul PosInf (Fin y) = (if y = 0 then NaN else if 0 < y then PosInf else NegInf)"
| "ieee_mul NegInf (Fin y) = (if y = 0 then NaN else if 0 < y then NegInf else PosInf)"
| "ieee_mul PosInf PosInf = PosInf"
| "ieee_mul PosInf NegInf = NegInf"
| "ieee_mul NegInf PosInf = NegInf"
| "ieee_mul NegInf NegInf = PosInf"

fun ieee_div :: "jsnum \<Rightarrow> jsnum \<Rightarrow> jsnum" where
  "ieee_div NaN _ = NaN"
| "ieee_div _ NaN = NaN"
| "ieee_div (Fin x) (Fin y) =
     (if y = 0 then (if x = 0 then NaN else if 0 < x then PosInf else NegInf)
      else ovf (x / y))"
| "ieee_div (Fin x) _ = Fin 0"
| "ieee_div PosInf (Fin y) = (if 0 \<le> y then PosInf else NegInf)"
| "ieee_div NegInf (Fin y) = (if 0 \<le> y then NegInf else PosInf)"
| "ieee_div _ _ = NaN"

fun ieee_floor :: "jsnum \<Rightarrow> jsnum" where
  "ieee_floor (Fin x) = Fin (real_of_int \<lfloor>x\<rfloor>)"
| "ieee_floor a = a"

text \<open>\<^verbatim>\<open><=\<close> and \<^verbatim>\<open>>=\<close>: false whenever an operand is NaN.\<close>

definition js_le :: "jsnum \<Rightarrow> jsnum \<Rightarrow> bool" where
  "js_le a b = (js_lt a b \<or> (\<not> isNaN a \<and> a = b))"

definition js_ge :: "jsnum \<Rightarrow> jsnum \<Rightarrow> bool" where
  "js_ge a b = js_le b a"


subsection \<open>Data model\<close>

record stock_js =
  id_js :: string
  name_js :: string
  price_js :: jsnum
  expectedReturn_js :: jsnum

record investmentResult_js =
  stockId_js :: string
  stockName_js :: string
  fraction_js :: jsnum
  investedAmount_js :: jsnum
  actualReturn_js :: jsnum

record app_state_js =
  budget_js :: jsnum
  stocks_js :: "stock_js list"
  investmentResults_js :: "investmentResult_js list"
  totalInvestedAmount_js :: jsnum
  totalActualReturn_js :: jsnum

text \<open>The alerts; Budget-Exceeded quotes the amount, the budget and the total.\<close>

datatype alert_js = InvalidInput_js | NotFound_js | BudgetExceeded_js jsnum jsnum jsnum

subsection \<open>\<^verbatim>\<open>Array.prototype.sort\<close> with a comparator that may return NaN\<close>

text \<open>
  The sort treats a NaN from the comparator as 0, so as "equal". As long as no
  efficiency is NaN the comparator is consistent (it returns NaN only for two infinite
  efficiencies of the same sign, which are equal), and the result of a stable sort is
  unique. With a NaN efficiency the comparator need not be consistent and the order of
  the result is left to the implementation: the insertion sort below is then one such
  order, and the budget bound uses only that the result is a permutation of the input.
\<close>

fun insort_js :: "('a \<Rightarrow> 'a \<Rightarrow> jsnum) \<Rightarrow> 'a \<Rightarrow> 'a list \<Rightarrow> 'a list" where
  "insort_js cmp x [] = [x]"
| "insort_js cmp x (y # ys) =
     (if isNaN (cmp x y) \<or> js_le (cmp x y) (Fin 0) then x # y # ys
      else y # insort_js cmp x ys)"

definition sort_js :: "('a \<Rightarrow> 'a \<Rightarrow> jsnum) \<Rightarrow> 'a list \<Rightarrow> 'a list" where
  "sort_js cmp xs = foldr (insort_js cmp) xs []"

subsection \<open>\<^verbatim>\<open>handleCalculateInvestment\<close> over IEEE values\<close>

definition zeroResult_js :: "stock_js \<Rightarrow> investmentResult_js" where
  "zeroResult_js stock =
     \<lparr>stockId_js = id_js stock, stockName_js = name_js stock,
      fraction_js = Fin 0, investedAmount_js = Fin 0, actualReturn_js = Fin 0\<rparr>"

definition initResultsMap_js :: "stock_js list \<Rightarrow> (string \<times> investmentResult_js) list" where
  "initResultsMap_js sts =
     foldl (\<lambda>m stock. AList.update (id_js stock) (zeroResult_js stock) m) [] sts"

definition compareStocks_js :: "stock_js \<Rightarrow> stock_js \<Rightarrow> jsnum" where
  "compareStocks_js a b =
     ieee_sub (ieee_div (expectedReturn_js b) (price_js b))
              (ieee_div (expectedReturn_js a) (price_js a))"

definition sortedStocks_js :: "stock_js list \<Rightarrow> stock_js list" where
  "sortedStocks_js sts = sort_js compareStocks_js sts"

record loop_state_js =
  currentBudget_js :: jsnum
  currentTotalReturn_js :: jsnum
  currentTotalInvestedAmount_js :: jsnum
  resultsMap_js :: "(string \<times> investmentResult_js) list"

definition loopBody_js :: "stock_js \<Rightarrow> loop_state_js \<Rightarrow> loop_state_js" where
  "loopBody_js stock st =
     (let (frac, invested, ret) =
        (if js_ge (currentBudget_js st) (price_js stock) then
           (let numShares = ieee_floor (ieee_div (currentBudget_js st) (price_js stock))
            in (numShares, ieee_mul numShares (price_js stock),
                ieee_mul (ieee_mul numShares (price_js stock))
                         (ieee_div (expectedReturn_js stock) (Fin 100))))
         else
           (ieee_div (currentBudget_js st) (price_js stock), currentBudget_js st,
            ieee_mul (currentBudget_js st) (ieee_div (expectedReturn_js stock) (Fin 100))))
      in \<lparr>currentBudget_js = ieee_sub (currentBudget_js st) invested,
          currentTotalReturn_js = ieee_add (currentTotalReturn_js st) ret,
          currentTotalInvestedAmount_js = ieee_add (currentTotalInvestedAmount_js st) invested,
          resultsMap_js =
            AList.map_entry (id_js stock)
              (\<lambda>r. r\<lparr>fraction_js := frac, investedAmount_js := invested,
                     actualReturn_js := ret\<rparr>)
              (resultsMap_js st)\<rparr>)"

fun allocLoop_js :: "stock_js list \<Rightarrow> loop_state_js \<Rightarrow> loop_state_js" where
  "allocLoop_js [] st = st"
| "allocLoop_js (stock # rest) st =
     (if js_le (currentBudget_js st) (Fin 0) then st
      else allocLoop_js rest (loopBody_js stock st))"

definition handleCalculateInvestment_js ::
    "jsnum \<Rightarrow> stock_js list \<Rightarrow> app_state_js \<Rightarrow> alert_js option \<times> app_state_js" where
  "handleCalculateInvestment_js b sts st =
     (if js_le b (Fin 0) \<or> length sts = 0 then
        (Some InvalidInput_js,
         st\<lparr>investmentResults_js := map zeroResult_js sts,
            totalInvestedAmount_js := Fin 0, totalActualReturn_js := Fin 0\<rparr>)
      else
        (let fin = allocLoop_js (sortedStocks_js sts)
               \<lparr>currentBudget_js = b, currentTotalReturn_js = Fin 0,
                currentTotalInvestedAmount_js = Fin 0,
                resultsMap_js = initResultsMap_js sts\<rparr>
         in (None,
             st\<lparr>investmentResults_js := map snd (resultsMap_js fin),
                totalInvestedAmount_js := currentTotalInvestedAmount_js fin,
                totalActualReturn_js := currentTotalReturn_js fin\<rparr>)))"

definition allocate_js ::
    "jsnum \<Rightarrow> stock_js list \<Rightarrow> investmentResult_js list \<times> jsnum \<times> jsnum" where
  "allocate_js b sts =
     (let st' = snd (handleCalculateInvestment_js b sts
                 \<lparr>budget_js = b, stocks_js = sts, investmentResults_js = [],
                  totalInvestedAmount_js = Fin 0, totalActualReturn_js = Fin 0\<rparr>)
      in (investmentResults_js st', totalInvestedAmount_js st', totalActualReturn_js st'))"

subsection \<open>\<^verbatim>\<open>handleAdjustInvestment\<close> over IEEE values\<close>

text \<open>
  \<^verbatim>\<open>currentInvestmentResult?.investedAmount || 0\<close> is 0 when there is no result and
  when the amount is 0 or NaN. Every amount that passes the two checks is written into
  the results, finite or not.
\<close>

definition currentInvestmentAmount_js :: "investmentResult_js list \<Rightarrow> string \<Rightarrow> jsnum" where
  "currentInvestmentAmount_js results sid =
     (case find (\<lambda>r. stockId_js r = sid) results of
        None \<Rightarrow> Fin 0
      | Some currentInvestmentResult \<Rightarrow>
          (if isNaN (investedAmount_js currentInvestmentResult)
              \<or> investedAmount_js currentInvestmentResult = Fin 0
           then Fin 0 else investedAmount_js currentInvestmentResult))"

definition adjustResult_js ::
    "stock_js \<Rightarrow> string \<Rightarrow> jsnum \<Rightarrow> investmentResult_js \<Rightarrow> investmentResult_js" where
  "adjustResult_js stockToAdjust sid newAmount result =
     (if stockId_js result = sid then
        result\<lparr>fraction_js := ieee_div newAmount (price_js stockToAdjust),
               investedAmount_js := newAmount,
               actualReturn_js :=
                 ieee_mul newAmount (ieee_div (expectedReturn_js stockToAdjust) (Fin 100))\<rparr>
      else result)"

definition handleAdjustInvestment_js ::
    "string \<Rightarrow> jsnum \<Rightarrow> app_state_js \<Rightarrow> alert_js option \<times> app_state_js" where
  "handleAdjustInvestment_js sid newAmount st =
     (if isNaN newAmount \<or> js_lt newAmount (Fin 0) then (Some InvalidInput_js, st)
      else
        (case find (\<lambda>s. id_js s = sid) (stocks_js st) of
           None \<Rightarrow> (Some NotFound_js, st)
         | Some stockToAdjust \<Rightarrow>
             (let amountDifference =
                    ieee_sub newAmount
                      (currentInvestmentAmount_js (investmentResults_js st) sid);
                  newTotalInvested = ieee_add (totalInvestedAmount_js st) amountDifference
              in if js_gt newTotalInvested (budget_js st) then
                   (Some (BudgetExceeded_js newAmount (budget_js st)
                            (totalInvestedAmount_js st)), st)
                 else
                   (let updatedResults =
                          map (adjustResult_js stockToAdjust sid newAmount)
                            (investmentResults_js st)
                    in (None,
                        st\<lparr>investmentResults_js := updatedResults,
                           totalInvestedAmount_js :=
                             foldl (\<lambda>sum res. ieee_add sum (investedAmount_js res))
                               (Fin 0) updatedResults,
                           totalActualReturn_js :=
                             foldl (\<lambda>sum res. ieee_add sum (actualReturn_js res))
                               (Fin 0) updatedResults\<rparr>)))))"

section \<open>Notions used to state the properties\<close>

text \<open>The ranking key: the quotient both sides of the comparator compute.\<close>

definition efficiency :: "stock \<Rightarrow> real" where
  "efficiency s = expectedReturn s / price s"

text \<open>Every result of the map is stored under its own stock id.\<close>

definition keyed :: "(string \<times> investmentResult) list \<Rightarrow> bool" where
  "keyed m = (\<forall>(k, r) \<in> set m. stockId r = k)"

text \<open>Three stocks for examples: two of efficiency 0.1 and one of 0.2.\<close>

definition tieA :: stock where
  "tieA = \<lparr>id_stock = ''A'', name = ''Stock A'', price = 100, expectedReturn = 10\<rparr>"

definition tieB :: stock where
  "tieB = \<lparr>id_stock = ''B'', name = ''Stock B'', price = 50, expectedReturn = 5\<rparr>"

definition topC :: stock where
  "topC = \<lparr>id_stock = ''C'', name = ''Stock C'', price = 50, expectedReturn = 10\<rparr>"


text \<open>
  A state for examples: the budget 100, two stocks X and Y holding 20 and 60, so 80
  invested in total.
\<close>

definition stockX :: stock where
  "stockX = \<lparr>id_stock = ''X'', name = ''Stock X'', price = 10, expectedReturn = 5\<rparr>"

definition stockY :: stock where
  "stockY = \<lparr>id_stock = ''Y'', name = ''Stock Y'', price = 20, expectedReturn = 10\<rparr>"

definition resultX :: investmentResult where
  "resultX = \<lparr>stockId = ''X'', stockName = ''Stock X'', fraction = 2,
              investedAmount = 20, actualReturn = 1\<rparr>"

definition resultY :: investmentResult where
  "resultY = \<lparr>stockId = ''Y'', stockName = ''Stock Y'', fraction = 3,
              investedAmount = 60, actualReturn = 6\<rparr>"

definition state80 :: app_state where
  "state80 = \<lparr>budget = 100, stocks = [stockX, stockY],
              investmentResults = [resultX, resultY],
              totalInvestedAmount = 80, totalActualReturn = 7\<rparr>"

text \<open>The same budget and stocks before any allocation has run.\<close>

definition stateFresh :: app_state where
  "stateFresh = \<lparr>budget = 100, stocks = [stockX, stockY], investmentResults = [],
                 totalInvestedAmount = 0, totalActualReturn = 0\<rparr>"

text \<open>
  The example of the specification, budget 120 with A (price 100) and B (price 50),
  after its allocation.
\<close>

definition stockA :: stock where
  "stockA = \<lparr>id_stock = ''A'', name = ''Stock A'', price = 100, expectedReturn = 10\<rparr>"

definition stockB :: stock where
  "stockB = \<lparr>id_stock = ''B'', name = ''Stock B'', price = 50, expectedReturn = 10\<rparr>"

definition state120 :: app_state where
  "state120 = \<lparr>budget = 120, stocks = [stockA, stockB],
     investmentResults =
       [\<lparr>stockId = ''A'', stockName = ''Stock A'', fraction = 0.2, investedAmount = 20,
         actualReturn = 2\<rparr>,
        \<lparr>stockId = ''B'', stockName = ''Stock B'', fraction = 2, investedAmount = 100,
         actualReturn = 10\<rparr>],
     totalInvestedAmount = 120, totalActualReturn = 12\<rparr>"

text \<open>
  The walk of the specification (section 4.1, steps 3 and 4), in its words: stop as
  soon as the remaining budget is not positive, the stocks not reached keeping their
  zero-valued result; buy whole shares when the remaining budget covers one share, a
  fraction otherwise; decrement the remaining budget by what was invested. It is
  the side of the specification in the comparison with the loop of the source.
\<close>

fun greedyWalk :: "real \<Rightarrow> stock list \<Rightarrow> investmentResult list" where
  "greedyWalk remainingBudget [] = []"
| "greedyWalk remainingBudget (s # rest) =
     (if remainingBudget \<le> 0 then map zeroResult (s # rest)
      else if remainingBudget \<ge> price s then
        (let shares = real_of_int \<lfloor>remainingBudget / price s\<rfloor>;
             invested = shares * price s
         in \<lparr>stockId = id_stock s, stockName = name s, fraction = shares,
             investedAmount = invested,
             actualReturn = invested * expectedReturn s / 100\<rparr>
            # greedyWalk (remainingBudget - invested) rest)
      else
        \<lparr>stockId = id_stock s, stockName = name s,
         fraction = remainingBudget / price s, investedAmount = remainingBudget,
         actualReturn = remainingBudget * expectedReturn s / 100\<rparr>
        # greedyWalk (remainingBudget - remainingBudget) rest)"

text \<open>The result a list of results holds for a stock.\<close>

definition resultOf :: "investmentResult list \<Rightarrow> stock \<Rightarrow> investmentResult option" where
  "resultOf results s = find (\<lambda>r. stockId r = id_stock s) results"







text \<open>The example state with 80 invested of 100, over IEEE values.\<close>

definition stockX_js :: stock_js where
  "stockX_js = \<lparr>id_js = ''X'', name_js = ''Stock X'', price_js = Fin 10,
                expectedReturn_js = Fin 5\<rparr>"

definition stockY_js :: stock_js where
  "stockY_js = \<lparr>id_js = ''Y'', name_js = ''Stock Y'', price_js = Fin 20,
                expectedReturn_js = Fin 10\<rparr>"

definition resultX_js :: investmentResult_js where
  "resultX_js = \<lparr>stockId_js = ''X'', stockName_js = ''Stock X'', fraction_js = Fin 2,
                 investedAmount_js = Fin 20, actualReturn_js = Fin 1\<rparr>"

definition resultY_js :: investmentResult_js where
  "resultY_js = \<lparr>stockId_js = ''Y'', stockName_js = ''Stock Y'', fraction_js = Fin 3,
                 investedAmount_js = Fin 60, actualReturn_js = Fin 6\<rparr>"

definition state80_js :: app_state_js where
  "state80_js = \<lparr>budget_js = Fin 100, stocks_js = [stockX_js, stockY_js],
                 investmentResults_js = [resultX_js, resultY_js],
                 totalInvestedAmount_js = Fin 80, totalActualReturn_js = Fin 7\<rparr>"

text \<open>
  The ranking key over IEEE values, and a rank that orders these values from
  \<open>Infinity\<close> down to \<open>-Infinity\<close> (lexicographically: the kind first, then the
  negated finite value). The rank serves only to relate the comparator sort to a sort
  by key.
\<close>

definition efficiency_js :: "stock_js \<Rightarrow> jsnum" where
  "efficiency_js s = ieee_div (expectedReturn_js s) (price_js s)"

fun rankKey :: "jsnum \<Rightarrow> nat \<times> real" where
  "rankKey PosInf = (0, 0)"
| "rankKey (Fin x) = (1, - x)"
| "rankKey NegInf = (2, 0)"
| "rankKey NaN = (3, 0)"

definition effRank :: "stock_js \<Rightarrow> nat \<times> real" where
  "effRank s = rankKey (efficiency_js s)"

text \<open>Every result of the map is stored under its own stock id.\<close>

definition keyed_js :: "(string \<times> investmentResult_js) list \<Rightarrow> bool" where
  "keyed_js m = (\<forall>(k, r) \<in> set m. stockId_js r = k)"

text \<open>
  The walk of the specification (section 4.1, steps 3 and 4) in the arithmetic of the
  source, and the result a list of results holds for a stock.
\<close>

fun greedyWalk_js :: "jsnum \<Rightarrow> stock_js list \<Rightarrow> investmentResult_js list" where
  "greedyWalk_js remainingBudget [] = []"
| "greedyWalk_js remainingBudget (s # rest) =
     (if js_le remainingBudget (Fin 0) then map zeroResult_js (s # rest)
      else if js_ge remainingBudget (price_js s) then
        (let shares = ieee_floor (ieee_div remainingBudget (price_js s));
             invested = ieee_mul shares (price_js s)
         in \<lparr>stockId_js = id_js s, stockName_js = name_js s, fraction_js = shares,
             investedAmount_js = invested,
             actualReturn_js = ieee_mul invested (ieee_div (expectedReturn_js s) (Fin 100))\<rparr>
            # greedyWalk_js (ieee_sub remainingBudget invested) rest)
      else
        \<lparr>stockId_js = id_js s, stockName_js = name_js s,
         fraction_js = ieee_div remainingBudget (price_js s),
         investedAmount_js = remainingBudget,
         actualReturn_js =
           ieee_mul remainingBudget (ieee_div (expectedReturn_js s) (Fin 100))\<rparr>
        # greedyWalk_js (ieee_sub remainingBudget remainingBudget) rest)"

definition resultOf_js ::
    "investmentResult_js list \<Rightarrow> stock_js \<Rightarrow> investmentResult_js option" where
  "resultOf_js results s = find (\<lambda>r. stockId_js r = id_js s) results"

text \<open>
  The three example stocks over IEEE values, and two stocks whose quotients
  \<open>expectedReturn / price\<close> both overflow.
\<close>

definition tieA_js :: stock_js where
  "tieA_js = \<lparr>id_js = ''A'', name_js = ''Stock A'', price_js = Fin 100,
              expectedReturn_js = Fin 10\<rparr>"

definition tieB_js :: stock_js where
  "tieB_js = \<lparr>id_js = ''B'', name_js = ''Stock B'', price_js = Fin 50,
              expectedReturn_js = Fin 5\<rparr>"

definition topC_js :: stock_js where
  "topC_js = \<lparr>id_js = ''C'', name_js = ''Stock C'', price_js = Fin 50,
              expectedReturn_js = Fin 10\<rparr>"

definition hugeA :: stock_js where
  "hugeA = \<lparr>id_js = ''A'', name_js = ''Huge A'', price_js = Fin (1 / 10 ^ 305),
            expectedReturn_js = Fin 10000\<rparr>"

definition hugeB :: stock_js where
  "hugeB = \<lparr>id_js = ''B'', name_js = ''Huge B'', price_js = Fin (1 / 10 ^ 305),
            expectedReturn_js = Fin 20000\<rparr>"

section \<open>Properties\<close>

lemmas alloc_defs =
  allocate_def handleCalculateInvestment_def sortedStocks_def js_sort_def
  compareStocks_def initResultsMap_def zeroResult_def loopBody_def Let_def

subsection \<open>The sorted order\<close>

lemma insort_cmp_key: "insort_cmp compareStocks x xs = insort_key (\<lambda>s. - efficiency s) x xs"
  by (induction xs) (auto simp: compareStocks_def efficiency_def)

lemma sortedStocks_sort_key: "sortedStocks sts = sort_key (\<lambda>s. - efficiency s) sts"
  by (induction sts) (simp_all add: sortedStocks_def js_sort_def insort_cmp_key)

lemma set_sortedStocks: "set (sortedStocks sts) = set sts"
  by (simp add: sortedStocks_sort_key)

lemma distinct_sortedStocks:
  "distinct (map id_stock sts) \<Longrightarrow> distinct (map id_stock (sortedStocks sts))"
  by (simp add: sortedStocks_sort_key distinct_map)

lemma sorted_sortedStocks:
  "sorted_wrt (\<lambda>a b. efficiency a \<ge> efficiency b) (sortedStocks sts)"
proof -
  have "sorted (map (\<lambda>s. - efficiency s) (sort_key (\<lambda>s. - efficiency s) sts))"
    by (rule sorted_sort_key)
  then show ?thesis by (simp add: sortedStocks_sort_key sorted_map)
qed

subsection \<open>The result map\<close>

lemma update_fresh: "k \<notin> fst ` set m \<Longrightarrow> AList.update k v m = m @ [(k, v)]"
  by (induction m) auto

lemma foldl_update_fresh:
  "distinct (map id_stock sts) \<Longrightarrow> id_stock ` set sts \<inter> fst ` set m = {} \<Longrightarrow>
   foldl (\<lambda>m stock. AList.update (id_stock stock) (zeroResult stock) m) m sts
     = m @ map (\<lambda>s. (id_stock s, zeroResult s)) sts"
proof (induction sts arbitrary: m)
  case Nil
  then show ?case by simp
next
  case (Cons s sts)
  have fresh: "id_stock s \<notin> fst ` set m" using Cons.prems(2) by auto
  have "id_stock ` set sts \<inter> fst ` set (m @ [(id_stock s, zeroResult s)]) = {}"
    using Cons.prems by auto
  with Cons.IH [of "m @ [(id_stock s, zeroResult s)]"] Cons.prems(1) fresh
  show ?case by (simp add: update_fresh)
qed

lemma initResultsMap_distinct:
  "distinct (map id_stock sts) \<Longrightarrow> initResultsMap sts = map (\<lambda>s. (id_stock s, zeroResult s)) sts"
  using foldl_update_fresh [of sts "[]"] by (simp add: initResultsMap_def)

lemma set_update_subset: "set (AList.update k v m) \<subseteq> insert (k, v) (set m)"
  by (induction m) auto

lemma keyed_update: "keyed m \<Longrightarrow> stockId v = k \<Longrightarrow> keyed (AList.update k v m)"
  using set_update_subset [of k v m] by (auto simp: keyed_def)

lemma foldl_update_keys:
  "keyed m \<Longrightarrow>
   keyed (foldl (\<lambda>m stock. AList.update (id_stock stock) (zeroResult stock) m) m sts) \<and>
   fst ` set (foldl (\<lambda>m stock. AList.update (id_stock stock) (zeroResult stock) m) m sts)
     = fst ` set m \<union> id_stock ` set sts"
proof (induction sts arbitrary: m)
  case Nil
  then show ?case by simp
next
  case (Cons s sts)
  have "keyed (AList.update (id_stock s) (zeroResult s) m)"
    using Cons.prems by (simp add: keyed_update zeroResult_def)
  from Cons.IH [OF this] show ?case by (auto simp: AList.dom_update)
qed

lemma initResultsMap_ids:
  "(stockId \<circ> snd) ` set (initResultsMap sts) = id_stock ` set sts"
proof -
  have k: "keyed (initResultsMap sts)" and d: "fst ` set (initResultsMap sts) = id_stock ` set sts"
    using foldl_update_keys [of "[]" sts] by (simp_all add: initResultsMap_def keyed_def)
  have "(stockId \<circ> snd) ` set (initResultsMap sts) = fst ` set (initResultsMap sts)"
    using k by (force simp: keyed_def)
  with d show ?thesis by simp
qed

lemma map_fst_map_entry: "map fst (AList.map_entry k f m) = map fst m"
  by (induction m) auto

lemma stockIds_map_entry:
  "(\<And>r. stockId (f r) = stockId r) \<Longrightarrow>
   map (stockId \<circ> snd) (AList.map_entry k f m) = map (stockId \<circ> snd) m"
  by (induction m) auto

lemma loopBody_keys: "map fst (resultsMap (loopBody s st)) = map fst (resultsMap st)"
  by (simp add: loopBody_def Let_def map_fst_map_entry split: prod.splits)

lemma loopBody_stockIds:
  "map (stockId \<circ> snd) (resultsMap (loopBody s st)) = map (stockId \<circ> snd) (resultsMap st)"
  by (simp add: loopBody_def Let_def stockIds_map_entry split: prod.splits)

lemma allocLoop_keys: "map fst (resultsMap (allocLoop ss st)) = map fst (resultsMap st)"
  by (induction ss arbitrary: st) (simp_all add: loopBody_keys)

lemma allocLoop_stockIds:
  "map (stockId \<circ> snd) (resultsMap (allocLoop ss st)) = map (stockId \<circ> snd) (resultsMap st)"
  by (induction ss arbitrary: st) (simp_all add: loopBody_stockIds)

lemma map_entry_other:
  "k' \<noteq> k \<Longrightarrow> (k', r) \<in> set m \<Longrightarrow> (k', r) \<in> set (AList.map_entry k f m)"
  by (induction m) auto



lemma loopBody_other:
  "id_stock s' \<noteq> id_stock s \<Longrightarrow> (id_stock s', r) \<in> set (resultsMap st) \<Longrightarrow>
   (id_stock s', r) \<in> set (resultsMap (loopBody s st))"
  by (simp add: loopBody_def Let_def map_entry_other split: prod.splits)

subsection \<open>One result per stock\<close>

lemma allocate_results_nondeg:
  "\<not> (b \<le> 0 \<or> sts = []) \<Longrightarrow>
   map stockId (fst (allocate b sts)) = map (stockId \<circ> snd) (initResultsMap sts)"
  by (simp add: allocate_def handleCalculateInvestment_def Let_def allocLoop_stockIds)

lemma allocate_degenerate:
  "b \<le> 0 \<or> sts = [] \<Longrightarrow> allocate b sts = (map zeroResult sts, 0, 0)"
  by (auto simp add: allocate_def handleCalculateInvestment_def)

text \<open>
  C2: for every budget and every stock list, the ids of the results are the ids of the
  stocks; when the ids of the stocks are pairwise distinct (they are fresh UUIDs) there
  is exactly one result per stock, in the order of the stocks. When the budget is not
  positive or there is no stock, every result has fraction, invested amount and return
  0, and both totals are 0.
\<close>

theorem allocate_complete:
  "stockId ` set (fst (allocate b sts)) = id_stock ` set sts \<and>
   (distinct (map id_stock sts) \<longrightarrow> map stockId (fst (allocate b sts)) = map id_stock sts) \<and>
   (b \<le> 0 \<or> sts = [] \<longrightarrow>
      (\<forall>r \<in> set (fst (allocate b sts)).
         fraction r = 0 \<and> investedAmount r = 0 \<and> actualReturn r = 0) \<and>
      snd (allocate b sts) = (0, 0))"
proof (cases "b \<le> 0 \<or> sts = []")
  case True
  then have eq: "allocate b sts = (map zeroResult sts, 0, 0)" by (rule allocate_degenerate)
  have "stockId ` set (map zeroResult sts) = id_stock ` set sts"
    by (force simp: zeroResult_def)
  moreover have "map stockId (map zeroResult sts) = map id_stock sts"
    by (simp add: zeroResult_def)
  moreover have "\<forall>r \<in> set (map zeroResult sts).
      fraction r = 0 \<and> investedAmount r = 0 \<and> actualReturn r = 0"
    by (simp add: zeroResult_def)
  ultimately show ?thesis unfolding eq by simp
next
  case False
  then have ids: "map stockId (fst (allocate b sts)) = map (stockId \<circ> snd) (initResultsMap sts)"
    by (rule allocate_results_nondeg)
  have "stockId ` set (fst (allocate b sts)) = set (map stockId (fst (allocate b sts)))"
    by simp
  also have "\<dots> = (stockId \<circ> snd) ` set (initResultsMap sts)"
    unfolding ids by simp
  finally have s: "stockId ` set (fst (allocate b sts)) = id_stock ` set sts"
    by (simp only: initResultsMap_ids)
  have "map stockId (fst (allocate b sts)) = map id_stock sts" if "distinct (map id_stock sts)"
    unfolding ids using that by (simp add: initResultsMap_distinct zeroResult_def comp_def)
  with s False show ?thesis by blast
qed

theorem allocate_complete_witness:
  "distinct (map id_stock
      [\<lparr>id_stock = ''A'', name = ''Stock A'', price = 100, expectedReturn = 10\<rparr>,
       \<lparr>id_stock = ''B'', name = ''Stock B'', price = 50, expectedReturn = 10\<rparr>]) \<and>
   ((0::real) \<le> 0 \<or> [\<lparr>id_stock = ''A'', name = ''Stock A'', price = 100, expectedReturn = 10\<rparr>,
       \<lparr>id_stock = ''B'', name = ''Stock B'', price = 50, expectedReturn = (10::real)\<rparr>] = []) \<and>
   map stockId (fst (allocate 0
      [\<lparr>id_stock = ''A'', name = ''Stock A'', price = 100, expectedReturn = 10\<rparr>,
       \<lparr>id_stock = ''B'', name = ''Stock B'', price = 50, expectedReturn = 10\<rparr>])) = [''A'', ''B''] \<and>
   snd (allocate 0
      [\<lparr>id_stock = ''A'', name = ''Stock A'', price = 100, expectedReturn = 10\<rparr>,
       \<lparr>id_stock = ''B'', name = ''Stock B'', price = 50, expectedReturn = 10\<rparr>]) = (0, 0)"
  using allocate_complete [of 0
      "[\<lparr>id_stock = ''A'', name = ''Stock A'', price = 100, expectedReturn = 10\<rparr>,
       \<lparr>id_stock = ''B'', name = ''Stock B'', price = 50, expectedReturn = 10\<rparr>]"]
  by simp

subsection \<open>Manual adjustment: the checks\<close>

lemmas state80_defs = state80_def stockX_def stockY_def resultX_def resultY_def

lemma foldl_plus_sum_list:
  fixes g :: "'a \<Rightarrow> real"
  shows "foldl (\<lambda>sum res. sum + g res) z xs = z + sum_list (map g xs)"
  by (induction xs arbitrary: z) simp_all


text \<open>
  C6: when the stock exists and the amount is a number \<open>a \<ge> 0\<close>, and the total
  invested plus the difference between \<open>a\<close> and the stock's current invested amount
  exceeds the budget, the adjustment reports Budget-Exceeded and the state (results and
  both totals) is the one it started from. The instance of the specification: 80
  invested of a budget of 100, X holding 20, and X adjusted to 45.
\<close>

theorem adjust_over_budget:
  assumes "0 \<le> a"
    and "find (\<lambda>s. id_stock s = sid) (stocks st) = Some stockToAdjust"
    and "totalInvestedAmount st + (a - currentInvestmentAmount (investmentResults st) sid)
           > budget st"
  shows "handleAdjustInvestment sid (Fin a) st =
           (Some (BudgetExceeded (Fin a) (budget st) (totalInvestedAmount st)), st)"
  using assms
  by (simp add: handleAdjustInvestment_def Let_def js_gt_def js_sub_def)

theorem adjust_over_budget_witness:
  "(0::real) \<le> 45 \<and>
   find (\<lambda>s. id_stock s = ''X'') (stocks state80) = Some stockX \<and>
   totalInvestedAmount state80 = 80 \<and> budget state80 = 100 \<and>
   currentInvestmentAmount (investmentResults state80) ''X'' = 20 \<and>
   handleAdjustInvestment ''X'' (Fin 45) state80 = (Some (BudgetExceeded (Fin 45) 100 80), state80)"
  using adjust_over_budget [of 45 "''X''" state80 stockX]
  by (simp add: state80_defs currentInvestmentAmount_def)

text \<open>
  C10: for a stock of the stock list without a result, and a number \<open>a \<ge> 0\<close>, the
  current invested amount counts as 0 in the budget check. When the check passes no
  error is reported, the results are the same list (no entry added, none changed), and
  both totals are recomputed as the sums over these results; the amount \<open>a\<close> is
  recorded nowhere.
\<close>

theorem adjust_without_result:
  assumes "0 \<le> a"
    and "find (\<lambda>s. id_stock s = sid) (stocks st) = Some stockToAdjust"
    and "sid \<notin> stockId ` set (investmentResults st)"
  shows "currentInvestmentAmount (investmentResults st) sid = 0 \<and>
    handleAdjustInvestment sid (Fin a) st =
      (if totalInvestedAmount st + a > budget st then
         (Some (BudgetExceeded (Fin a) (budget st) (totalInvestedAmount st)), st)
       else
         (None, st\<lparr>totalInvestedAmount := sum_list (map investedAmount (investmentResults st)),
                   totalActualReturn := sum_list (map actualReturn (investmentResults st))\<rparr>))"
proof -
  have none: "find (\<lambda>r. stockId r = sid) (investmentResults st) = None"
    using assms(3) by (auto simp: find_None_iff)
  then have cur: "currentInvestmentAmount (investmentResults st) sid = 0"
    by (simp add: currentInvestmentAmount_def)
  have same: "map (adjustResult stockToAdjust sid a) (investmentResults st) = investmentResults st"
    using assms(3) by (intro map_idI) (auto simp: adjustResult_def)
  show ?thesis
    using assms(1,2) cur
    by (simp add: handleAdjustInvestment_def Let_def js_gt_def js_sub_def same
          foldl_plus_sum_list)
qed

theorem adjust_without_result_witness:
  "(0::real) \<le> 30 \<and>
   find (\<lambda>s. id_stock s = ''X'') (stocks stateFresh) = Some stockX \<and>
   ''X'' \<notin> stockId ` set (investmentResults stateFresh) \<and>
   handleAdjustInvestment ''X'' (Fin 30) stateFresh = (None, stateFresh) \<and>
   handleAdjustInvestment ''X'' (Fin 15) (state80\<lparr>investmentResults := [resultY]\<rparr>) =
     (None, state80\<lparr>investmentResults := [resultY], totalInvestedAmount := 60,
                    totalActualReturn := 6\<rparr>)"
  using adjust_without_result [of 30 "''X''" stateFresh stockX]
    adjust_without_result [of 15 "''X''" "state80\<lparr>investmentResults := [resultY]\<rparr>" stockX]
  by (simp add: state80_defs stateFresh_def)

subsection \<open>Manual adjustment: the effect\<close>



subsection \<open>Removal\<close>



text \<open>
  C4: the claim is that the removal yields the allocation over the remaining stocks.
  At the state of the example, removing B leaves the results and totals of the
  allocation over A and B in place (B keeps its 100, A its 20, total 120), where the
  allocation over A alone buys one share of A for 100.
\<close>

theorem removeStock_stale_stocks:
  "snd (handleRemoveStock ''B'' state120) = state120\<lparr>stocks := [stockA]\<rparr> \<and>
   allocate 120 [stockA] =
     ([\<lparr>stockId = ''A'', stockName = ''Stock A'', fraction = 1, investedAmount = 100,
        actualReturn = 10\<rparr>], 100, 10) \<and>
   investmentResults (snd (handleRemoveStock ''B'' state120)) \<noteq> fst (allocate 120 [stockA])"
  by (simp add: handleRemoveStock_def state120_def stockA_def stockB_def alloc_defs)

subsection \<open>Return consistency\<close>

lemma keyed_iff: "keyed m \<longleftrightarrow> map (stockId \<circ> snd) m = map fst m"
  by (induction m) (auto simp: keyed_def)

lemma keyed_allocLoop: "keyed (resultsMap st) \<Longrightarrow> keyed (resultsMap (allocLoop ss st))"
  by (simp add: keyed_iff allocLoop_keys allocLoop_stockIds)







lemma keyed_initResultsMap: "keyed (initResultsMap sts)"
  using foldl_update_keys [of "[]" sts] by (simp add: initResultsMap_def keyed_def)






subsection \<open>Ranking by efficiency and the walk in that order, over exact reals\<close>

lemma find_map_snd_keyed:
  "keyed m \<Longrightarrow> find (\<lambda>r. stockId r = k) (map snd m) = map_of m k"
  by (induction m) (auto simp: keyed_def)

lemma map_of_loopBody_other:
  "k \<noteq> id_stock s \<Longrightarrow> map_of (resultsMap (loopBody s st)) k = map_of (resultsMap st) k"
  by (simp add: loopBody_def Let_def AList.map_of_map_entry split: prod.splits)

lemma map_of_allocLoop_other:
  "k \<notin> id_stock ` set ss \<Longrightarrow>
   map_of (resultsMap (allocLoop ss st)) k = map_of (resultsMap st) k"
  by (induction ss arbitrary: st) (auto simp: map_of_loopBody_other)

lemma map_of_loopBody_zero:
  assumes "map_of (resultsMap st) (id_stock s) = Some (zeroResult s)"
    and "0 < currentBudget st"
  shows "map_of (resultsMap (loopBody s st)) (id_stock s) =
           Some (hd (greedyWalk (currentBudget st) [s])) \<and>
         currentBudget (loopBody s st) =
           currentBudget st - investedAmount (hd (greedyWalk (currentBudget st) [s]))"
  using assms
  by (simp add: loopBody_def Let_def AList.map_of_map_entry zeroResult_def
        split: prod.splits)

lemma allocLoop_walk:
  assumes "distinct (map id_stock ss)" and "distinct (map fst (resultsMap st))"
    and "\<forall>s \<in> set ss. map_of (resultsMap st) (id_stock s) = Some (zeroResult s)"
  shows "map (\<lambda>s. map_of (resultsMap (allocLoop ss st)) (id_stock s)) ss =
           map Some (greedyWalk (currentBudget st) ss)"
  using assms
proof (induction ss arbitrary: st)
  case Nil
  then show ?case by simp
next
  case (Cons s ss)
  show ?case
  proof (cases "currentBudget st \<le> 0")
    case True
    with Cons.prems(3) show ?thesis by simp
  next
    case False
    let ?st1 = "loopBody s st"
    have fresh: "id_stock s \<notin> id_stock ` set ss" using Cons.prems(1) by simp
    have z: "map_of (resultsMap st) (id_stock s) = Some (zeroResult s)"
      using Cons.prems(3) by simp
    from False have pos: "0 < currentBudget st" by simp
    note step = map_of_loopBody_zero [OF z pos]
    have head: "map_of (resultsMap (allocLoop ss ?st1)) (id_stock s) =
        Some (hd (greedyWalk (currentBudget st) [s]))"
      using map_of_allocLoop_other [OF fresh] step by simp
    have d: "distinct (map fst (resultsMap ?st1))"
      using Cons.prems(2) by (simp add: loopBody_keys)
    have z': "\<forall>s' \<in> set ss. map_of (resultsMap ?st1) (id_stock s') = Some (zeroResult s')"
    proof
      fix s' assume s': "s' \<in> set ss"
      then have "id_stock s' \<in> id_stock ` set ss" by (rule imageI)
      with fresh have "id_stock s' \<noteq> id_stock s" by metis
      with Cons.prems(3) s' show "map_of (resultsMap ?st1) (id_stock s') = Some (zeroResult s')"
        by (simp add: map_of_loopBody_other)
    qed
    have "distinct (map id_stock ss)" using Cons.prems(1) by simp
    from Cons.IH [OF this d z']
    have tail: "map (\<lambda>s. map_of (resultsMap (allocLoop ss ?st1)) (id_stock s)) ss =
        map Some (greedyWalk (currentBudget ?st1) ss)" .
    show ?thesis
      using False head tail step
      by (simp add: Let_def)
  qed
qed


lemma map_of_zero_entries:
  "distinct (map id_stock sts) \<Longrightarrow> s \<in> set sts \<Longrightarrow>
   map_of (map (\<lambda>s. (id_stock s, zeroResult s)) sts) (id_stock s) = Some (zeroResult s)"
  by (rule map_of_is_SomeI) (auto simp: comp_def)

lemma greedyWalk_no_budget: "b \<le> 0 \<Longrightarrow> greedyWalk b ss = map zeroResult ss"
  by (cases ss) simp_all

lemma allocate_walk:
  assumes d: "distinct (map id_stock sts)"
  shows "map (resultOf (fst (allocate b sts))) (sortedStocks sts) =
           map Some (greedyWalk b (sortedStocks sts))"
proof (cases "b \<le> 0 \<or> sts = []")
  case True
  have k: "keyed (map (\<lambda>s. (id_stock s, zeroResult s)) sts)"
    by (auto simp: keyed_def zeroResult_def)
  have "resultOf (map zeroResult sts) s = Some (zeroResult s)" if "s \<in> set sts" for s
    using find_map_snd_keyed [OF k, of "id_stock s"] map_of_zero_entries [OF d that]
    by (simp add: resultOf_def comp_def)
  then have "map (resultOf (map zeroResult sts)) (sortedStocks sts) =
      map Some (map zeroResult (sortedStocks sts))"
    by (simp add: set_sortedStocks)
  moreover have "greedyWalk b (sortedStocks sts) = map zeroResult (sortedStocks sts)"
  proof (cases "b \<le> 0")
    case True
    then show ?thesis by (rule greedyWalk_no_budget)
  next
    case False
    with \<open>b \<le> 0 \<or> sts = []\<close> have "sts = []" by simp
    then show ?thesis by (simp add: sortedStocks_def js_sort_def)
  qed
  ultimately show ?thesis using True by (simp add: allocate_degenerate)
next
  case False
  let ?st0 = "\<lparr>currentBudget = b, currentTotalReturn = 0,
     currentTotalInvestedAmount = 0, resultsMap = initResultsMap sts\<rparr>"
  let ?fin = "allocLoop (sortedStocks sts) ?st0"
  have out: "fst (allocate b sts) = map snd (resultsMap ?fin)"
    using False by (simp add: allocate_def handleCalculateInvestment_def Let_def)
  have "keyed (resultsMap ?st0)" by (simp add: keyed_initResultsMap)
  then have k: "keyed (resultsMap ?fin)" by (rule keyed_allocLoop)
  have "resultOf (fst (allocate b sts)) s = map_of (resultsMap ?fin) (id_stock s)" for s
    unfolding out resultOf_def by (rule find_map_snd_keyed [OF k])
  then have res: "resultOf (fst (allocate b sts)) =
      (\<lambda>s. map_of (resultsMap ?fin) (id_stock s))"
    by (rule ext)
  have init: "resultsMap ?st0 = map (\<lambda>s. (id_stock s, zeroResult s)) sts"
    using d by (simp add: initResultsMap_distinct)
  have dk: "distinct (map fst (resultsMap ?st0))"
    using d by (simp add: initResultsMap_distinct comp_def)
  have z: "\<forall>s \<in> set (sortedStocks sts).
      map_of (resultsMap ?st0) (id_stock s) = Some (zeroResult s)"
    unfolding init using map_of_zero_entries [OF d] by (simp add: set_sortedStocks)
  from allocLoop_walk [OF distinct_sortedStocks [OF d] dk z]
  show ?thesis unfolding res by simp
qed

text \<open>
  At the level of exact reals: the list the greedy loop walks is the input list ordered
  by efficiency, descending; it is a permutation of the input, and the stocks of any one
  efficiency appear in it in their input order. With pairwise distinct ids the
  allocation holds, for each stock, the result of the walk of the specification over
  exactly this list.
\<close>

lemma exact_walk_stable_order:
  assumes "\<forall>s \<in> set sts. 0 < price s"
  shows "sorted_wrt (\<lambda>a b. efficiency a \<ge> efficiency b) (sortedStocks sts) \<and>
         mset (sortedStocks sts) = mset sts \<and>
         (\<forall>k. filter (\<lambda>s. efficiency s = k) (sortedStocks sts) =
              filter (\<lambda>s. efficiency s = k) sts) \<and>
         (distinct (map id_stock sts) \<longrightarrow>
            map (resultOf (fst (allocate b sts))) (sortedStocks sts) =
              map Some (greedyWalk b (sortedStocks sts)))"
proof -
  have "filter (\<lambda>s. efficiency s = k) (sortedStocks sts) = filter (\<lambda>s. efficiency s = k) sts"
    for k
    using sort_key_stable [of "\<lambda>s. - efficiency s" "- k" sts]
    by (simp add: sortedStocks_sort_key)
  moreover have "mset (sortedStocks sts) = mset sts"
    by (simp add: sortedStocks_sort_key)
  ultimately show ?thesis
    using sorted_sortedStocks [of sts] allocate_walk [of sts b] by blast
qed

lemma exact_walk_tie_example:
  "0 < price tieA \<and> 0 < price tieB \<and> 0 < price topC \<and>
   distinct (map id_stock [tieA, tieB, topC]) \<and>
   sortedStocks [tieA, tieB, topC] = [topC, tieA, tieB] \<and>
   sortedStocks [tieB, tieA, topC] = [topC, tieB, tieA] \<and>
   map (resultOf (fst (allocate 65 [tieA, tieB, topC]))) [topC, tieA, tieB] =
     map Some (greedyWalk 65 [topC, tieA, tieB]) \<and>
   map investedAmount (fst (allocate 65 [tieA, tieB, topC])) = [15, 0, 50] \<and>
   map investedAmount (fst (allocate 65 [tieB, tieA, topC])) = [15, 0, 50] \<and>
   map stockId (fst (allocate 65 [tieB, tieA, topC])) = [''B'', ''A'', ''C'']"
proof -
  have s: "sortedStocks [tieA, tieB, topC] = [topC, tieA, tieB]"
    "sortedStocks [tieB, tieA, topC] = [topC, tieB, tieA]"
    by (simp_all add: tieA_def tieB_def topC_def alloc_defs)
  have p: "\<forall>s \<in> set [tieA, tieB, topC]. 0 < price s"
    by (simp add: tieA_def tieB_def topC_def)
  have d: "distinct (map id_stock [tieA, tieB, topC])"
    by (simp add: tieA_def tieB_def topC_def)
  have r: "map investedAmount (fst (allocate 65 [tieA, tieB, topC])) = [15, 0, 50]"
    "map investedAmount (fst (allocate 65 [tieB, tieA, topC])) = [15, 0, 50]"
    "map stockId (fst (allocate 65 [tieB, tieA, topC])) = [''B'', ''A'', ''C'']"
    by (simp_all add: tieA_def tieB_def topC_def alloc_defs)
  from exact_walk_stable_order [OF p, of 65] d s r p show ?thesis by simp
qed

subsection \<open>The worked example of the greedy order\<close>

text \<open>
  C3: for the stocks A (price 100, expected return 10) and B (price 50, expected return
  10) and the budget 120, B is ranked first (efficiency 0.2 against 0.1) and gets two
  whole shares: fraction 2, invested 100, return 10. A gets the remaining 20 as a
  fraction: fraction 0.2, invested 20, return 2. The totals are 120 and 12. The results
  come out in the input order, A before B. The ids and names are any, the ids distinct.
\<close>

theorem greedy_example:
  fixes ida idb na nb :: string
  defines "A \<equiv> \<lparr>id_stock = ida, name = na, price = 100, expectedReturn = 10\<rparr>"
    and "B \<equiv> \<lparr>id_stock = idb, name = nb, price = 50, expectedReturn = 10\<rparr>"
  assumes "ida \<noteq> idb"
  shows "sortedStocks [A, B] = [B, A] \<and>
    allocate 120 [A, B] =
      ([\<lparr>stockId = ida, stockName = na, fraction = 0.2, investedAmount = 20,
         actualReturn = 2\<rparr>,
        \<lparr>stockId = idb, stockName = nb, fraction = 2, investedAmount = 100,
         actualReturn = 10\<rparr>],
       120, 12)"
  using assms(3) unfolding A_def B_def by (simp add: alloc_defs)

theorem greedy_example_witness:
  "''A'' \<noteq> ''B'' \<and>
   allocate 120
     [\<lparr>id_stock = ''A'', name = ''Stock A'', price = 100, expectedReturn = 10\<rparr>,
      \<lparr>id_stock = ''B'', name = ''Stock B'', price = 50, expectedReturn = 10\<rparr>] =
     ([\<lparr>stockId = ''A'', stockName = ''Stock A'', fraction = 0.2, investedAmount = 20,
        actualReturn = 2\<rparr>,
       \<lparr>stockId = ''B'', stockName = ''Stock B'', fraction = 2, investedAmount = 100,
        actualReturn = 10\<rparr>],
      120, 12)"
  using greedy_example [of "''A''" "''B''" "''Stock A''" "''Stock B''"] by simp

section \<open>Properties over IEEE values\<close>

subsection \<open>The range of finite values\<close>

lemmas state80_js_defs = state80_js_def stockX_js_def stockY_js_def resultX_js_def resultY_js_def

lemma ovf_Fin: "\<bar>x\<bar> < overflowBound \<Longrightarrow> ovf x = Fin x"
  by (auto simp: ovf_def)

lemma million_less_overflowBound: "10 ^ 6 < overflowBound"
  by (simp add: overflowBound_def)

lemma overflowBound_less: "overflowBound < 10 ^ 309"
  by (simp add: overflowBound_def)

lemma small_less_overflowBound: "x \<le> 10 ^ 6 \<Longrightarrow> x < overflowBound"
  using million_less_overflowBound by linarith

lemma ovf_small: "\<bar>x\<bar> \<le> 10 ^ 6 \<Longrightarrow> ovf x = Fin x"
  using million_less_overflowBound by (intro ovf_Fin) linarith

lemma ovf_big: "10 ^ 309 \<le> x \<Longrightarrow> ovf x = PosInf"
  using overflowBound_less by (simp add: ovf_def)

lemmas alloc_js_defs =
  allocate_js_def handleCalculateInvestment_js_def sortedStocks_js_def sort_js_def
  compareStocks_js_def initResultsMap_js_def zeroResult_js_def loopBody_js_def Let_def
  js_le_def js_ge_def ieee_sub_def ovf_small ovf_big small_less_overflowBound

subsection \<open>The budget bound\<close>

lemma mset_insort_js: "mset (insort_js cmp x xs) = add_mset x (mset xs)"
  by (induction xs) auto

lemma mset_sortedStocks_js: "mset (sortedStocks_js sts) = mset sts"
  by (induction sts) (simp_all add: sortedStocks_js_def sort_js_def mset_insort_js)

lemma set_sortedStocks_js: "set (sortedStocks_js sts) = set sts"
  using mset_sortedStocks_js [of sts] by (metis set_mset_mset)

lemma distinct_sortedStocks_js:
  "distinct (map id_js sts) \<Longrightarrow> distinct (map id_js (sortedStocks_js sts))"
proof -
  have "mset (map id_js (sortedStocks_js sts)) = mset (map id_js sts)"
    by (simp add: mset_sortedStocks_js)
  then show "distinct (map id_js sts) \<Longrightarrow> distinct (map id_js (sortedStocks_js sts))"
    using mset_eq_imp_distinct_iff by blast
qed

lemma foldl_update_fresh_js:
  "distinct (map id_js sts) \<Longrightarrow> id_js ` set sts \<inter> fst ` set m = {} \<Longrightarrow>
   foldl (\<lambda>m stock. AList.update (id_js stock) (zeroResult_js stock) m) m sts
     = m @ map (\<lambda>s. (id_js s, zeroResult_js s)) sts"
proof (induction sts arbitrary: m)
  case Nil
  then show ?case by simp
next
  case (Cons s sts)
  have fresh: "id_js s \<notin> fst ` set m" using Cons.prems(2) by auto
  have "id_js ` set sts \<inter> fst ` set (m @ [(id_js s, zeroResult_js s)]) = {}"
    using Cons.prems by auto
  with Cons.IH [of "m @ [(id_js s, zeroResult_js s)]"] Cons.prems(1) fresh
  show ?case by (simp add: update_fresh)
qed

lemma initResultsMap_js_distinct:
  "distinct (map id_js sts) \<Longrightarrow>
   initResultsMap_js sts = map (\<lambda>s. (id_js s, zeroResult_js s)) sts"
  using foldl_update_fresh_js [of sts "[]"] by (simp add: initResultsMap_js_def)


lemma loopBody_js_keys: "map fst (resultsMap_js (loopBody_js s st)) = map fst (resultsMap_js st)"
  by (simp add: loopBody_js_def Let_def map_fst_map_entry split: prod.splits)









subsection \<open>Ranking by efficiency, stable, and the walk in that order\<close>

lemma overflowBound_pos: "0 < overflowBound"
  using million_less_overflowBound by simp

lemma ovf_nonpos_iff: "(isNaN (ovf z) \<or> js_le (ovf z) (Fin 0)) \<longleftrightarrow> z \<le> 0"
  using overflowBound_pos by (auto simp: ovf_def js_le_def)

lemma compare_rankKey:
  assumes "\<not> isNaN a" and "\<not> isNaN b"
  shows "(isNaN (ieee_sub b a) \<or> js_le (ieee_sub b a) (Fin 0)) \<longleftrightarrow> rankKey a \<le> rankKey b"
proof (cases a)
  case (Fin x)
  show ?thesis
  proof (cases b)
    case (Fin y)
    with \<open>a = Fin x\<close> show ?thesis
      using ovf_nonpos_iff [of "y - x"] by (simp add: ieee_sub_def)
  qed (use assms \<open>a = Fin x\<close> in \<open>simp_all add: ieee_sub_def js_le_def\<close>)
qed (use assms in \<open>cases b; simp add: ieee_sub_def js_le_def\<close>)+

lemma rankKey_le_iff:
  "\<not> isNaN a \<Longrightarrow> \<not> isNaN b \<Longrightarrow> rankKey a \<le> rankKey b \<longleftrightarrow> js_ge a b"
  by (cases a; cases b) (auto simp: js_ge_def js_le_def)

lemma rankKey_inj: "rankKey a = rankKey b \<longleftrightarrow> a = b"
  by (cases a; cases b) auto

lemma insort_js_key:
  assumes "\<not> isNaN (efficiency_js x)" and "\<forall>y \<in> set xs. \<not> isNaN (efficiency_js y)"
  shows "insort_js compareStocks_js x xs = insort_key effRank x xs"
  using assms(2)
proof (induction xs)
  case Nil
  then show ?case by simp
next
  case (Cons y ys)
  have "(isNaN (compareStocks_js x y) \<or> js_le (compareStocks_js x y) (Fin 0)) \<longleftrightarrow>
      rankKey (efficiency_js x) \<le> rankKey (efficiency_js y)"
    unfolding compareStocks_js_def efficiency_js_def [symmetric]
    using assms(1) Cons.prems by (intro compare_rankKey) simp_all
  with Cons show ?case by (simp add: effRank_def)
qed

lemma sortedStocks_js_sort_key:
  "\<forall>s \<in> set sts. \<not> isNaN (efficiency_js s) \<Longrightarrow>
   sortedStocks_js sts = sort_key effRank sts"
proof (induction sts)
  case Nil
  then show ?case by (simp add: sortedStocks_js_def sort_js_def)
next
  case (Cons s sts)
  then have ih: "sort_js compareStocks_js sts = sort_key effRank sts"
    by (simp add: sortedStocks_js_def)
  have "\<forall>y \<in> set (sort_key effRank sts). \<not> isNaN (efficiency_js y)"
    using Cons.prems by simp
  with Cons.prems show ?case
    by (simp add: sortedStocks_js_def sort_js_def ih [unfolded sort_js_def] insort_js_key)
qed

lemma sorted_sortedStocks_js:
  assumes "\<forall>s \<in> set sts. \<not> isNaN (efficiency_js s)"
  shows "sorted_wrt (\<lambda>a b. js_ge (efficiency_js a) (efficiency_js b)) (sortedStocks_js sts)"
proof -
  have "sorted (map effRank (sort_key effRank sts))"
    by (rule sorted_sort_key)
  then have "sorted_wrt (\<lambda>a b. rankKey (efficiency_js a) \<le> rankKey (efficiency_js b))
      (sortedStocks_js sts)"
    by (simp add: sortedStocks_js_sort_key [OF assms] sorted_map effRank_def)
  then show ?thesis
  proof (rule sorted_wrt_mono_rel [rotated])
    fix a b assume "a \<in> set (sortedStocks_js sts)" "b \<in> set (sortedStocks_js sts)"
      and "rankKey (efficiency_js a) \<le> rankKey (efficiency_js b)"
    with assms show "js_ge (efficiency_js a) (efficiency_js b)"
      by (simp add: set_sortedStocks_js rankKey_le_iff)
  qed
qed

lemma stable_sortedStocks_js:
  assumes "\<forall>s \<in> set sts. \<not> isNaN (efficiency_js s)"
  shows "filter (\<lambda>s. efficiency_js s = k) (sortedStocks_js sts) =
         filter (\<lambda>s. efficiency_js s = k) sts"
proof -
  have "filter (\<lambda>s. effRank s = rankKey k)
          (sort_key effRank sts) =
        filter (\<lambda>s. effRank s = rankKey k) sts"
    by (rule sort_key_stable)
  then show ?thesis
    by (simp add: sortedStocks_js_sort_key [OF assms] rankKey_inj effRank_def)
qed


lemma keyed_js_map_entry:
  "keyed_js m \<Longrightarrow> (\<And>r. stockId_js (f r) = stockId_js r) \<Longrightarrow>
   keyed_js (AList.map_entry k f m)"
  by (induction m) (auto simp: keyed_js_def)

lemma keyed_js_loopBody: "keyed_js (resultsMap_js st) \<Longrightarrow> keyed_js (resultsMap_js (loopBody_js s st))"
  by (simp add: loopBody_js_def Let_def keyed_js_map_entry split: prod.splits)

lemma keyed_js_allocLoop:
  "keyed_js (resultsMap_js st) \<Longrightarrow> keyed_js (resultsMap_js (allocLoop_js ss st))"
  by (induction ss arbitrary: st) (simp_all add: keyed_js_loopBody)

lemma find_map_snd_keyed_js:
  "keyed_js m \<Longrightarrow> find (\<lambda>r. stockId_js r = k) (map snd m) = map_of m k"
  by (induction m) (auto simp: keyed_js_def)

lemma map_of_loopBody_js_other:
  "k \<noteq> id_js s \<Longrightarrow>
   map_of (resultsMap_js (loopBody_js s st)) k = map_of (resultsMap_js st) k"
  by (simp add: loopBody_js_def Let_def AList.map_of_map_entry split: prod.splits)

lemma map_of_allocLoop_js_other:
  "k \<notin> id_js ` set ss \<Longrightarrow>
   map_of (resultsMap_js (allocLoop_js ss st)) k = map_of (resultsMap_js st) k"
  by (induction ss arbitrary: st) (auto simp: map_of_loopBody_js_other)

lemma map_of_loopBody_js_zero:
  assumes "map_of (resultsMap_js st) (id_js s) = Some (zeroResult_js s)"
    and "\<not> js_le (currentBudget_js st) (Fin 0)"
  shows "map_of (resultsMap_js (loopBody_js s st)) (id_js s) =
           Some (hd (greedyWalk_js (currentBudget_js st) [s])) \<and>
         currentBudget_js (loopBody_js s st) =
           ieee_sub (currentBudget_js st)
             (investedAmount_js (hd (greedyWalk_js (currentBudget_js st) [s])))"
  using assms
  by (simp add: loopBody_js_def Let_def AList.map_of_map_entry zeroResult_js_def
        split: prod.splits)

lemma allocLoop_js_walk:
  assumes "distinct (map id_js ss)" and "distinct (map fst (resultsMap_js st))"
    and "\<forall>s \<in> set ss. map_of (resultsMap_js st) (id_js s) = Some (zeroResult_js s)"
  shows "map (\<lambda>s. map_of (resultsMap_js (allocLoop_js ss st)) (id_js s)) ss =
           map Some (greedyWalk_js (currentBudget_js st) ss)"
  using assms
proof (induction ss arbitrary: st)
  case Nil
  then show ?case by simp
next
  case (Cons s ss)
  show ?case
  proof (cases "js_le (currentBudget_js st) (Fin 0)")
    case True
    with Cons.prems(3) show ?thesis by simp
  next
    case False
    let ?st1 = "loopBody_js s st"
    have fresh: "id_js s \<notin> id_js ` set ss" using Cons.prems(1) by simp
    have z: "map_of (resultsMap_js st) (id_js s) = Some (zeroResult_js s)"
      using Cons.prems(3) by simp
    note step = map_of_loopBody_js_zero [OF z False]
    have head: "map_of (resultsMap_js (allocLoop_js ss ?st1)) (id_js s) =
        Some (hd (greedyWalk_js (currentBudget_js st) [s]))"
      using map_of_allocLoop_js_other [OF fresh] step by simp
    have d: "distinct (map fst (resultsMap_js ?st1))"
      using Cons.prems(2) by (simp add: loopBody_js_keys)
    have z': "\<forall>s' \<in> set ss.
        map_of (resultsMap_js ?st1) (id_js s') = Some (zeroResult_js s')"
    proof
      fix s' assume s': "s' \<in> set ss"
      then have "id_js s' \<in> id_js ` set ss" by (rule imageI)
      with fresh have "id_js s' \<noteq> id_js s" by metis
      with Cons.prems(3) s'
      show "map_of (resultsMap_js ?st1) (id_js s') = Some (zeroResult_js s')"
        by (simp add: map_of_loopBody_js_other)
    qed
    have "distinct (map id_js ss)" using Cons.prems(1) by simp
    from Cons.IH [OF this d z']
    have tail: "map (\<lambda>s. map_of (resultsMap_js (allocLoop_js ss ?st1)) (id_js s)) ss =
        map Some (greedyWalk_js (currentBudget_js ?st1) ss)" .
    show ?thesis
      using False head tail step
      by (simp add: Let_def)
  qed
qed

lemma map_of_zero_entries_js:
  "distinct (map id_js sts) \<Longrightarrow> s \<in> set sts \<Longrightarrow>
   map_of (map (\<lambda>s. (id_js s, zeroResult_js s)) sts) (id_js s) = Some (zeroResult_js s)"
  by (rule map_of_is_SomeI) (auto simp: comp_def)

lemma greedyWalk_js_no_budget:
  "js_le b (Fin 0) \<Longrightarrow> greedyWalk_js b ss = map zeroResult_js ss"
  by (cases ss) simp_all

lemma keyed_js_zero_entries: "keyed_js (map (\<lambda>s. (id_js s, zeroResult_js s)) sts)"
  by (auto simp: keyed_js_def zeroResult_js_def)

lemma allocate_js_walk:
  assumes d: "distinct (map id_js sts)"
  shows "map (resultOf_js (fst (allocate_js b sts))) (sortedStocks_js sts) =
           map Some (greedyWalk_js b (sortedStocks_js sts))"
proof (cases "js_le b (Fin 0) \<or> sts = []")
  case True
  then have deg: "allocate_js b sts = (map zeroResult_js sts, Fin 0, Fin 0)"
    by (auto simp: allocate_js_def handleCalculateInvestment_js_def)
  have "resultOf_js (map zeroResult_js sts) s = Some (zeroResult_js s)" if "s \<in> set sts" for s
    using find_map_snd_keyed_js [OF keyed_js_zero_entries, of "id_js s" sts]
      map_of_zero_entries_js [OF d that]
    by (simp add: resultOf_js_def comp_def)
  then have "map (resultOf_js (map zeroResult_js sts)) (sortedStocks_js sts) =
      map Some (map zeroResult_js (sortedStocks_js sts))"
    by (simp add: set_sortedStocks_js)
  moreover have "greedyWalk_js b (sortedStocks_js sts) = map zeroResult_js (sortedStocks_js sts)"
  proof (cases "js_le b (Fin 0)")
    case True
    then show ?thesis by (rule greedyWalk_js_no_budget)
  next
    case False
    with \<open>js_le b (Fin 0) \<or> sts = []\<close> have "sts = []" by simp
    then show ?thesis by (simp add: sortedStocks_js_def sort_js_def)
  qed
  ultimately show ?thesis by (simp add: deg)
next
  case False
  let ?st0 = "\<lparr>currentBudget_js = b, currentTotalReturn_js = Fin 0,
     currentTotalInvestedAmount_js = Fin 0, resultsMap_js = initResultsMap_js sts\<rparr>"
  let ?fin = "allocLoop_js (sortedStocks_js sts) ?st0"
  have out: "fst (allocate_js b sts) = map snd (resultsMap_js ?fin)"
    using False by (simp add: allocate_js_def handleCalculateInvestment_js_def Let_def)
  have init: "initResultsMap_js sts = map (\<lambda>s. (id_js s, zeroResult_js s)) sts"
    using d by (rule initResultsMap_js_distinct)
  have "keyed_js (resultsMap_js ?st0)" by (simp add: init keyed_js_zero_entries)
  then have k: "keyed_js (resultsMap_js ?fin)" by (rule keyed_js_allocLoop)
  have "resultOf_js (fst (allocate_js b sts)) s = map_of (resultsMap_js ?fin) (id_js s)" for s
    unfolding out resultOf_js_def by (rule find_map_snd_keyed_js [OF k])
  then have res: "resultOf_js (fst (allocate_js b sts)) =
      (\<lambda>s. map_of (resultsMap_js ?fin) (id_js s))"
    by (rule ext)
  have dk: "distinct (map fst (resultsMap_js ?st0))"
    using d by (simp add: init comp_def)
  have z: "\<forall>s \<in> set (sortedStocks_js sts).
      map_of (resultsMap_js ?st0) (id_js s) = Some (zeroResult_js s)"
    using map_of_zero_entries_js [OF d] by (simp add: init set_sortedStocks_js)
  from allocLoop_js_walk [OF distinct_sortedStocks_js [OF d] dk z]
  show ?thesis unfolding res by simp
qed

text \<open>
  The stock form admits a price \<open>> 0\<close> and a return \<open>\<ge> 0\<close>, neither NaN. The
  efficiency of such a stock is a number unless both are \<open>Infinity\<close>.
\<close>

lemma ovf_not_NaN: "\<not> isNaN (ovf x)"
  by (simp add: ovf_def)

lemma efficiency_js_number:
  assumes "js_lt (Fin 0) (price_js s)" and "js_le (Fin 0) (expectedReturn_js s)"
    and "\<not> (price_js s = PosInf \<and> expectedReturn_js s = PosInf)"
  shows "\<not> isNaN (efficiency_js s)"
  using assms
  by (cases "price_js s"; cases "expectedReturn_js s")
     (auto simp: efficiency_js_def js_le_def ovf_not_NaN)

text \<open>
  C9: for stocks whose efficiencies are numbers (finite or infinite, not NaN), the
  list the greedy loop walks is the input list ordered by efficiency, descending; it is
  a permutation of the input, and the stocks of any one efficiency appear in it in
  their input order. The allocation is the walk of the specification over exactly this
  list: with pairwise distinct ids, the result it holds for each stock is the result of
  that walk, stock by stock in the sorted order. So the results are a function of the
  input list alone, and among stocks of equal efficiency the earlier in the input is
  served first (the witness: of a budget of 65 the best stock takes 50, and the
  remaining 15 go to whichever of the two tied stocks comes first in the input).
\<close>

theorem greedy_js_walk_stable_order:
  assumes "\<forall>s \<in> set sts. \<not> isNaN (efficiency_js s)"
  shows "sorted_wrt (\<lambda>a b. js_ge (efficiency_js a) (efficiency_js b)) (sortedStocks_js sts) \<and>
         mset (sortedStocks_js sts) = mset sts \<and>
         (\<forall>k. filter (\<lambda>s. efficiency_js s = k) (sortedStocks_js sts) =
              filter (\<lambda>s. efficiency_js s = k) sts) \<and>
         (distinct (map id_js sts) \<longrightarrow>
            map (resultOf_js (fst (allocate_js b sts))) (sortedStocks_js sts) =
              map Some (greedyWalk_js b (sortedStocks_js sts)))"
  using sorted_sortedStocks_js [OF assms] stable_sortedStocks_js [OF assms]
    mset_sortedStocks_js [of sts] allocate_js_walk [of sts b]
  by blast

lemmas tie_js_defs = tieA_js_def tieB_js_def topC_js_def

theorem greedy_js_walk_stable_order_witness:
  "\<not> isNaN (efficiency_js tieA_js) \<and> \<not> isNaN (efficiency_js tieB_js) \<and>
   \<not> isNaN (efficiency_js topC_js) \<and>
   efficiency_js tieA_js = efficiency_js tieB_js \<and>
   distinct (map id_js [tieA_js, tieB_js, topC_js]) \<and>
   sortedStocks_js [tieA_js, tieB_js, topC_js] = [topC_js, tieA_js, tieB_js] \<and>
   sortedStocks_js [tieB_js, tieA_js, topC_js] = [topC_js, tieB_js, tieA_js] \<and>
   map (resultOf_js (fst (allocate_js (Fin 65) [tieA_js, tieB_js, topC_js])))
       [topC_js, tieA_js, tieB_js] =
     map Some (greedyWalk_js (Fin 65) [topC_js, tieA_js, tieB_js]) \<and>
   map investedAmount_js (fst (allocate_js (Fin 65) [tieA_js, tieB_js, topC_js])) =
     [Fin 15, Fin 0, Fin 50] \<and>
   map stockId_js (fst (allocate_js (Fin 65) [tieA_js, tieB_js, topC_js])) =
     [''A'', ''B'', ''C''] \<and>
   map investedAmount_js (fst (allocate_js (Fin 65) [tieB_js, tieA_js, topC_js])) =
     [Fin 15, Fin 0, Fin 50] \<and>
   map stockId_js (fst (allocate_js (Fin 65) [tieB_js, tieA_js, topC_js])) =
     [''B'', ''A'', ''C'']"
proof -
  have e: "efficiency_js tieA_js = Fin (1 / 10)" "efficiency_js tieB_js = Fin (1 / 10)"
    "efficiency_js topC_js = Fin (1 / 5)"
    by (simp_all add: efficiency_js_def tie_js_defs ovf_small)
  have n: "\<forall>s \<in> set [tieA_js, tieB_js, topC_js]. \<not> isNaN (efficiency_js s)"
    by (simp add: e)
  have d: "distinct (map id_js [tieA_js, tieB_js, topC_js])"
    by (simp add: tie_js_defs)
  have s: "sortedStocks_js [tieA_js, tieB_js, topC_js] = [topC_js, tieA_js, tieB_js]"
    "sortedStocks_js [tieB_js, tieA_js, topC_js] = [topC_js, tieB_js, tieA_js]"
    by (simp_all add: tie_js_defs alloc_js_defs)
  have r: "map investedAmount_js (fst (allocate_js (Fin 65) [tieA_js, tieB_js, topC_js])) =
      [Fin 15, Fin 0, Fin 50]"
    "map stockId_js (fst (allocate_js (Fin 65) [tieA_js, tieB_js, topC_js])) =
      [''A'', ''B'', ''C'']"
    "map investedAmount_js (fst (allocate_js (Fin 65) [tieB_js, tieA_js, topC_js])) =
      [Fin 15, Fin 0, Fin 50]"
    "map stockId_js (fst (allocate_js (Fin 65) [tieB_js, tieA_js, topC_js])) =
      [''B'', ''A'', ''C'']"
    by (simp_all add: tie_js_defs alloc_js_defs)
  from greedy_js_walk_stable_order [OF n, of "Fin 65"] d s r e show ?thesis by simp
qed


text \<open>
  Two quotients that both overflow are equal efficiencies (\<open>Infinity\<close>): the stocks
  keep their input order.
\<close>

lemma overflow_tie_example:
  "efficiency_js hugeA = PosInf \<and> efficiency_js hugeB = PosInf \<and>
   sortedStocks_js [hugeA, hugeB] = [hugeA, hugeB] \<and>
   sortedStocks_js [hugeB, hugeA] = [hugeB, hugeA]"
proof -
  have e: "efficiency_js hugeA = PosInf" "efficiency_js hugeB = PosInf"
    by (simp_all add: efficiency_js_def hugeA_def hugeB_def ovf_big)
  have c: "compareStocks_js x y = ieee_sub (efficiency_js y) (efficiency_js x)" for x y
    by (simp add: compareStocks_js_def efficiency_js_def)
  show ?thesis
    by (simp add: e c sortedStocks_js_def sort_js_def ieee_sub_def)
qed

subsection \<open>Manual adjustment: amounts that are not numbers\<close>

text \<open>
  C8 as stated does not hold: an amount that parses to \<open>Infinity\<close> passes the first
  check (it is neither NaN nor negative); here the budget check rejects it, with
  Budget-Exceeded and not Invalid-Input.
\<close>

theorem adjust_js_infinity_counterexample:
  "handleAdjustInvestment_js ''X'' PosInf state80_js =
     (Some (BudgetExceeded_js PosInf (Fin 100) (Fin 80)), state80_js) \<and>
   fst (handleAdjustInvestment_js ''X'' PosInf state80_js) \<noteq> Some InvalidInput_js"
  by (simp add: handleAdjustInvestment_js_def Let_def js_gt_def ieee_sub_def state80_js_defs
        currentInvestmentAmount_js_def)

text \<open>
  C8, amended: an amount that parses to NaN or to a negative number (\<open>-Infinity\<close>
  included) is reported as Invalid-Input and the state, all results and both totals,
  is the one the handler started from, whatever that state holds. \<open>Infinity\<close> is
  never reported as Invalid-Input.
\<close>

theorem adjust_js_invalid_amount:
  assumes "isNaN newAmount \<or> js_lt newAmount (Fin 0)"
  shows "handleAdjustInvestment_js sid newAmount st = (Some InvalidInput_js, st) \<and>
         fst (handleAdjustInvestment_js sid PosInf st) \<noteq> Some InvalidInput_js"
  using assms
  by (auto simp: handleAdjustInvestment_js_def Let_def split: option.splits)

theorem adjust_js_invalid_amount_witness:
  "isNaN NaN \<and> js_lt (Fin (- 5)) (Fin 0) \<and> js_lt NegInf (Fin 0) \<and>
   handleAdjustInvestment_js ''X'' NaN state80_js = (Some InvalidInput_js, state80_js) \<and>
   handleAdjustInvestment_js ''X'' (Fin (- 5)) state80_js = (Some InvalidInput_js, state80_js) \<and>
   handleAdjustInvestment_js ''X'' NegInf state80_js = (Some InvalidInput_js, state80_js)"
  using adjust_js_invalid_amount [of NaN "''X''" state80_js]
    adjust_js_invalid_amount [of "Fin (- 5)" "''X''" state80_js]
    adjust_js_invalid_amount [of NegInf "''X''" state80_js]
  by simp

text \<open>
  What happens to \<open>Infinity\<close> beyond that depends on the state: with an infinite
  budget it passes the budget check too and is written into the result and the totals.
\<close>

lemma adjust_js_infinite_budget:
  "handleAdjustInvestment_js ''X'' PosInf (state80_js\<lparr>budget_js := PosInf\<rparr>) =
     (None, state80_js\<lparr>budget_js := PosInf,
        investmentResults_js :=
          [\<lparr>stockId_js = ''X'', stockName_js = ''Stock X'', fraction_js = PosInf,
            investedAmount_js = PosInf, actualReturn_js = PosInf\<rparr>, resultY_js],
        totalInvestedAmount_js := PosInf, totalActualReturn_js := PosInf\<rparr>)"
  by (simp add: handleAdjustInvestment_js_def Let_def js_gt_def ieee_sub_def state80_js_defs
        currentInvestmentAmount_js_def adjustResult_js_def ovf_small)

end
